theory Spec2Isabelle
  imports Main
begin

section \<open>The adapter command (cmd/adapter/adapter.go)\<close>

subsection \<open>Errors and external collaborators\<close>

text \<open>
  A Go \<open>error\<close> is either produced by a collaborator outside the file (\<open>External\<close>) or
  built by \<open>fmt.Errorf\<close>; the format string is kept as written and the arguments are
  kept unrendered. A nil error is \<open>None\<close> of \<open>error option\<close>; a \<open>(value, error)\<close>
  return is a sum with \<open>Inl\<close> the error.
\<close>

datatype error = External string | Errorf string "fmtarg list"
  and fmtarg = V error | Q string | NilURL

type_synonym url = string
type_synonym rest_config = string
type_synonym transport = string
type_synonym cert_pool = "string list"
type_synonym rest_mapper = string
type_synonym dynamic_client = string
type_synonym namers = "string list"

datatype http_client =
    DefaultClient
  | TransportClient transport
  | RootCAClient cert_pool

datatype prom_client = ClientForAPI http_client url

text \<open>
  The metrics discovery configuration. The adapter command only looks at the number of
  discovery rules and at whether resource rules are present, so the rules are kept as
  the strings of the configuration file.
\<close>

record MetricsDiscoveryConfig =
  Rules :: "string list"
  ExternalRules :: "string list"
  ResourceRules :: "string option"

datatype custom_provider = PrometheusProvider rest_mapper dynamic_client prom_client namers int

text \<open>
  Everything the file calls in other packages and in the operating system: each entry is
  what the call returns in the run under consideration.
\<close>

record env =
  flag_prometheus_url :: "string option"
  flag_prometheus_auth_incluster :: "bool option"
  flag_prometheus_auth_config :: "string option"
  flag_prometheus_ca_file :: "string option"
  flag_config :: "string option"
  flag_metrics_relist_interval :: "int option"
  url_Parse :: "string \<Rightarrow> error + url"
  SystemCertPool :: "error + cert_pool"
  ReadFile :: "string \<Rightarrow> error + string"
  AppendCertsFromPEM :: "cert_pool \<Rightarrow> string \<Rightarrow> bool \<times> cert_pool"
  ClientConfig :: "string \<Rightarrow> error + rest_config"
  InClusterConfig :: "error + rest_config"
  TransportFor :: "rest_config \<Rightarrow> error + transport"
  FromFile :: "string \<Rightarrow> error + MetricsDiscoveryConfig"
  RESTMapper :: "error + rest_mapper"
  DynamicClient :: "error + dynamic_client"
  NamersFromConfig :: "MetricsDiscoveryConfig \<Rightarrow> rest_mapper \<Rightarrow> error + namers"
  NewProvider :: "prom_client \<Rightarrow> rest_mapper \<Rightarrow> string \<Rightarrow> error + string"
  Informers :: "error + string"
  Server :: "error + string"
  InstallStorage :: "string \<Rightarrow> string \<Rightarrow> string \<Rightarrow> error option"
  Run :: "error option"

subsection \<open>The command structure\<close>

text \<open>
  \<open>customMetricsProvider\<close> stands for the field of the embedded \<open>AdapterBase\<close> that
  \<open>WithCustomMetrics\<close> sets; \<open>metricsConfig\<close> is a pointer, nil until \<open>loadConfig\<close>
  succeeds. Durations are nanoseconds.
\<close>

record PrometheusAdapter =
  Name :: string
  customMetricsProvider :: "custom_provider option"
  PrometheusURL :: string
  PrometheusAuthInCluster :: bool
  PrometheusAuthConf :: string
  PrometheusCAFile :: string
  AdapterConfigFile :: string
  MetricsRelistInterval :: int
  metricsConfig :: "MetricsDiscoveryConfig option"

subsection \<open>HTTP clients\<close>

definition makeKubeconfigHTTPClient :: "env \<Rightarrow> bool \<Rightarrow> string \<Rightarrow> error + http_client" where
  "makeKubeconfigHTTPClient e inClusterAuth kubeConfigPath =
    (if inClusterAuth \<and> kubeConfigPath \<noteq> [] then
       Inl (Errorf ''may not use both in-cluster auth and an explicit kubeconfig at the same time'' [])
     else if \<not> inClusterAuth \<and> kubeConfigPath = [] then
       Inr DefaultClient
     else
       (case (if kubeConfigPath \<noteq> [] then
                (case ClientConfig e kubeConfigPath of
                   Inl err \<Rightarrow> Inl (Errorf ''unable to construct  auth configuration from %q for connecting to Prometheus: %v'' [Q kubeConfigPath, V err])
                 | Inr authConf \<Rightarrow> Inr authConf)
              else
                (case InClusterConfig e of
                   Inl err \<Rightarrow> Inl (Errorf ''unable to construct in-cluster auth configuration for connecting to Prometheus: %v'' [V err])
                 | Inr authConf \<Rightarrow> Inr authConf)) of
          Inl err \<Rightarrow> Inl err
        | Inr authConf \<Rightarrow>
            (case TransportFor e authConf of
               Inl err \<Rightarrow> Inl (Errorf ''unable to construct client transport for connecting to Prometheus: %v'' [V err])
             | Inr tr \<Rightarrow> Inr (TransportClient tr))))"

text \<open>The second component is what the function writes with \<open>log.Printf\<close>.\<close>

definition makePrometheusCAClient :: "env \<Rightarrow> string \<Rightarrow> (error + http_client) \<times> string list" where
  "makePrometheusCAClient e caFilename =
    (case SystemCertPool e of
       Inl err \<Rightarrow> (Inl (Errorf ''failed to read system certificates: %v'' [V err]), [])
     | Inr pool \<Rightarrow>
         (case ReadFile e caFilename of
            Inl err \<Rightarrow> (Inl (Errorf ''failed to read prometheus-ca-file: %v'' [V err]), [])
          | Inr data \<Rightarrow>
              (case AppendCertsFromPEM e pool data of
                 (ok, pool') \<Rightarrow>
                   (Inr (RootCAClient pool'),
                    if \<not> ok then [''warning: no certs found in prometheus-ca-file''] else []))))"

text \<open>The second component is the output written with \<open>fmt.Println\<close> and \<open>log.Printf\<close>.\<close>

definition makePromClient :: "env \<Rightarrow> PrometheusAdapter \<Rightarrow> (error + prom_client) \<times> string list" where
  "makePromClient e cmd =
    (case url_Parse e (PrometheusURL cmd) of
       Inl err \<Rightarrow> (Inl (Errorf ''invalid Prometheus URL %q: %v'' [NilURL, V err]), [])
     | Inr baseURL \<Rightarrow>
         (if PrometheusCAFile cmd \<noteq> [] then
            (case makePrometheusCAClient e (PrometheusCAFile cmd) of
               (Inl err, out) \<Rightarrow> (Inl err, out)
             | (Inr prometheusCAClient, out) \<Rightarrow>
                 (Inr (ClientForAPI prometheusCAClient baseURL), out @ [''successfully loaded ca file'']))
          else
            (case makeKubeconfigHTTPClient e (PrometheusAuthInCluster cmd) (PrometheusAuthConf cmd) of
               Inl err \<Rightarrow> (Inl err, [])
             | Inr kubeconfigHTTPClient \<Rightarrow>
                 (Inr (ClientForAPI kubeconfigHTTPClient baseURL), [''successfully using in cluster'']))))"

subsection \<open>Flags and configuration\<close>

text \<open>
  \<open>addFlags\<close> binds each flag to a field with the field's current value as default, and
  parsing the command line stores the value of every flag that was given. The command
  line is taken to parse: \<open>main\<close> ignores what \<open>Parse\<close> returns, and a flag set that
  exits on a malformed command line ends the process before any of the steps below.
\<close>

definition parseFlags :: "env \<Rightarrow> PrometheusAdapter \<Rightarrow> PrometheusAdapter" where
  "parseFlags e cmd = cmd
     \<lparr> PrometheusURL := (case flag_prometheus_url e of None \<Rightarrow> PrometheusURL cmd | Some v \<Rightarrow> v),
       PrometheusAuthInCluster :=
         (case flag_prometheus_auth_incluster e of None \<Rightarrow> PrometheusAuthInCluster cmd | Some v \<Rightarrow> v),
       PrometheusAuthConf :=
         (case flag_prometheus_auth_config e of None \<Rightarrow> PrometheusAuthConf cmd | Some v \<Rightarrow> v),
       PrometheusCAFile := (case flag_prometheus_ca_file e of None \<Rightarrow> PrometheusCAFile cmd | Some v \<Rightarrow> v),
       AdapterConfigFile := (case flag_config e of None \<Rightarrow> AdapterConfigFile cmd | Some v \<Rightarrow> v),
       MetricsRelistInterval :=
         (case flag_metrics_relist_interval e of None \<Rightarrow> MetricsRelistInterval cmd | Some v \<Rightarrow> v) \<rparr>"

text \<open>\<open>loadConfig\<close> returns its error and the command structure as it leaves it.\<close>

definition loadConfig :: "env \<Rightarrow> PrometheusAdapter \<Rightarrow> error option \<times> PrometheusAdapter" where
  "loadConfig e cmd =
    (if AdapterConfigFile cmd = [] then
       (Some (Errorf ''no metrics discovery configuration file specified (make sure to use --config)'' []), cmd)
     else
       (case FromFile e (AdapterConfigFile cmd) of
          Inl err \<Rightarrow> (Some (Errorf ''unable to load metrics discovery configuration: %v'' [V err]), cmd)
        | Inr mc \<Rightarrow> (None, cmd\<lparr>metricsConfig := Some mc\<rparr>)))"

subsection \<open>Providers\<close>

text \<open>
  The result of \<open>makeProvider\<close>: a nil-pointer panic when no configuration is loaded,
  otherwise the returned pair (a nil provider is \<open>None\<close>) together with whether the
  relist runner was started by \<open>runner.RunUntil\<close>.
\<close>

datatype provider_result =
    NilDereference
  | Returned "error + custom_provider option" bool

definition makeProvider :: "env \<Rightarrow> PrometheusAdapter \<Rightarrow> prom_client \<Rightarrow> provider_result" where
  "makeProvider e cmd promClient =
    (case metricsConfig cmd of
       None \<Rightarrow> NilDereference
     | Some mc \<Rightarrow>
         (if length (Rules mc) = 0 then Returned (Inr None) False
          else
            (case RESTMapper e of
               Inl err \<Rightarrow> Returned (Inl (Errorf ''unable to construct RESTMapper: %v'' [V err])) False
             | Inr mapper \<Rightarrow>
                 (case DynamicClient e of
                    Inl err \<Rightarrow> Returned (Inl (Errorf ''unable to construct Kubernetes client: %v'' [V err])) False
                  | Inr dynClient \<Rightarrow>
                      (case NamersFromConfig e mc mapper of
                         Inl err \<Rightarrow>
                           Returned (Inl (Errorf ''unable to construct naming scheme from metrics rules: %v'' [V err])) False
                       | Inr ns \<Rightarrow>
                           Returned (Inr (Some (PrometheusProvider mapper dynClient promClient ns
                                                  (MetricsRelistInterval cmd)))) True)))))"

text \<open>
  \<open>addResourceMetricsAPI\<close>: \<open>None\<close> is the nil-pointer panic, otherwise the returned error
  and whether the resource metrics storage was installed.
\<close>

definition addResourceMetricsAPI :: "env \<Rightarrow> PrometheusAdapter \<Rightarrow> prom_client \<Rightarrow> (error option \<times> bool) option" where
  "addResourceMetricsAPI e cmd promClient =
    (case metricsConfig cmd of
       None \<Rightarrow> None
     | Some mc \<Rightarrow>
         (case ResourceRules mc of
            None \<Rightarrow> Some (None, False)
          | Some rr \<Rightarrow>
              (case RESTMapper e of
                 Inl err \<Rightarrow> Some (Some err, False)
               | Inr mapper \<Rightarrow>
                   (case NewProvider e promClient mapper rr of
                      Inl err \<Rightarrow>
                        Some (Some (Errorf ''unable to construct resource metrics API provider: %v'' [V err]), False)
                    | Inr prov \<Rightarrow>
                        (case Informers e of
                           Inl err \<Rightarrow> Some (Some err, False)
                         | Inr informers \<Rightarrow>
                             (case Server e of
                                Inl err \<Rightarrow> Some (Some err, False)
                              | Inr server \<Rightarrow>
                                  (case InstallStorage e prov informers server of
                                     Some err \<Rightarrow> Some (Some err, False)
                                   | None \<Rightarrow> Some (None, True))))))))"

subsection \<open>The entry point\<close>

text \<open>
  How the process ends: \<open>glog.Fatalf\<close> with its format string and error (the process
  exits at once), a panic, or a return from \<open>main\<close>.
\<close>

datatype exit = Fatalf string error | Panic | Exit

record process =
  exit_of :: exit
  adapter :: PrometheusAdapter
  printed :: "string list"
  relistStarted :: bool
  resourceMetricsInstalled :: bool
  serverRan :: bool

definition initialAdapter :: PrometheusAdapter where
  "initialAdapter =
     \<lparr> Name = ''prometheus-metrics-adapter'',
       customMetricsProvider = None,
       PrometheusURL = ''https://localhost'',
       PrometheusAuthInCluster = False,
       PrometheusAuthConf = [],
       PrometheusCAFile = [],
       AdapterConfigFile = [],
       MetricsRelistInterval = 10 * 60 * 1000000000,
       metricsConfig = None \<rparr>"

definition stopped :: "exit \<Rightarrow> PrometheusAdapter \<Rightarrow> string list \<Rightarrow> bool \<Rightarrow> bool \<Rightarrow> bool \<Rightarrow> process" where
  "stopped x cmd out rl ri sr =
     \<lparr> exit_of = x, adapter = cmd, printed = out, relistStarted = rl,
       resourceMetricsInstalled = ri, serverRan = sr \<rparr>"

definition main :: "env \<Rightarrow> process" where
  "main e =
    (let cmd = parseFlags e initialAdapter in
     case makePromClient e cmd of
       (Inl err, out) \<Rightarrow>
         stopped (Fatalf ''unable to construct Prometheus client: %v'' err) cmd out False False False
     | (Inr promClient, out) \<Rightarrow>
         (case loadConfig e cmd of
            (Some err, cmd1) \<Rightarrow>
              stopped (Fatalf ''unable to load metrics discovery config: %v'' err) cmd1 out False False False
          | (None, cmd1) \<Rightarrow>
              (case makeProvider e cmd1 promClient of
                 NilDereference \<Rightarrow> stopped Panic cmd1 out False False False
               | Returned (Inl err) rl \<Rightarrow>
                   stopped (Fatalf ''unable to construct custom metrics provider: %v'' err) cmd1 out rl False False
               | Returned (Inr cmProvider) rl \<Rightarrow>
                   (let cmd2 = (case cmProvider of
                                  None \<Rightarrow> cmd1
                                | Some p \<Rightarrow> cmd1\<lparr>customMetricsProvider := Some p\<rparr>) in
                    case addResourceMetricsAPI e cmd2 promClient of
                      None \<Rightarrow> stopped Panic cmd2 out rl False False
                    | Some (Some err, ri) \<Rightarrow>
                        stopped (Fatalf ''unable to install resource metrics API: %v'' err) cmd2 out rl ri False
                    | Some (None, ri) \<Rightarrow>
                        (case Run e of
                           Some err \<Rightarrow>
                             stopped (Fatalf ''unable to run custom metrics adapter: %v'' err) cmd2 out rl ri True
                         | None \<Rightarrow> stopped Exit cmd2 out rl ri True)))))"

subsection \<open>Sample runs\<close>

definition emptyConfig :: MetricsDiscoveryConfig where
  "emptyConfig = \<lparr> Rules = [], ExternalRules = [], ResourceRules = None \<rparr>"

definition sampleEnv :: env where
  "sampleEnv =
     \<lparr> flag_prometheus_url = Some ''http://prometheus:9090'',
       flag_prometheus_auth_incluster = None,
       flag_prometheus_auth_config = None,
       flag_prometheus_ca_file = None,
       flag_config = Some ''/etc/adapter/config.yaml'',
       flag_metrics_relist_interval = None,
       url_Parse = (\<lambda>u. Inr u),
       SystemCertPool = Inr [],
       ReadFile = (\<lambda>f. Inl (External ''no such file'')),
       AppendCertsFromPEM = (\<lambda>pool pem. (True, pool @ [pem])),
       ClientConfig = (\<lambda>p. Inr p),
       InClusterConfig = Inl (External ''not running in a cluster''),
       TransportFor = (\<lambda>c. Inr c),
       FromFile = (\<lambda>f. if f = ''/etc/adapter/config.yaml'' then Inr emptyConfig
                        else Inl (External ''no such file'')),
       RESTMapper = Inr ''mapper'',
       DynamicClient = Inr ''dynamic'',
       NamersFromConfig = (\<lambda>c m. Inr (Rules c)),
       NewProvider = (\<lambda>c m r. Inr ''resource-provider''),
       Informers = Inr ''informers'',
       Server = Inr ''server'',
       InstallStorage = (\<lambda>p i s. None),
       Run = None \<rparr>"

definition noConfigEnv :: env where
  "noConfigEnv = sampleEnv\<lparr>flag_config := None\<rparr>"

definition missingConfigEnv :: env where
  "missingConfigEnv = sampleEnv\<lparr>flag_config := Some ''/etc/adapter/missing.yaml''\<rparr>"

section \<open>The rule engine: naming and query templates\<close>

text \<open>
  \<open>cmd/adapter/adapter.go\<close> builds its namers with \<open>NamersFromConfig\<close> and its provider
  with \<open>NewPrometheusProvider\<close>; the packages that define them are not among the sources
  (only the command and the sample configuration are). The naming of series and the
  rendering of query templates are therefore modelled from the specification and from
  the comments of \<open>docs/sample-config.yaml\<close>.
\<close>

subsection \<open>Regular expressions\<close>

text \<open>
  Modelled from the spec: the line feed, which \<open>.\<close> does not match in the regular
  expressions of \<open>seriesFilters\<close> and \<open>name.matches\<close> (the regular expression library is
  not among the sources).
\<close>

definition newline :: char where
  "newline = CHR 0x0A"

text \<open>
  Modelled from the spec: the abstract syntax of the regular expressions of
  \<open>seriesFilters\<close> and \<open>name.matches\<close>: a character, any character but the line feed,
  the two anchors, the empty expression, sequence, greedy repetition and a capture group.
\<close>

datatype regex = Chr char | Dot | Bol | Eol | Eps | Seq regex regex | Star regex | Group regex

text \<open>Modelled from the spec: the number of capture groups of an expression.\<close>

fun ngroups :: "regex \<Rightarrow> nat" where
  "ngroups (Seq r1 r2) = ngroups r1 + ngroups r2"
| "ngroups (Star r) = ngroups r"
| "ngroups (Group r) = Suc (ngroups r)"
| "ngroups _ = 0"

text \<open>
  Modelled from the spec: matching an expression at the head of a text. \<open>b\<close> says whether
  the position is the beginning of the whole text. The result lists every way to match,
  preferred first, each with the texts of the capture groups (in the order of their
  opening parentheses, \<open>None\<close> for a group that took no part) and the text left over.
  Repetition is greedy, and an iteration has to consume a character.
\<close>

fun rmatch :: "regex \<Rightarrow> bool \<Rightarrow> string \<Rightarrow> (string option list \<times> string) list" where
  "rmatch (Chr c) b s = (case s of [] \<Rightarrow> [] | x # xs \<Rightarrow> if x = c then [([], xs)] else [])"
| "rmatch Dot b s = (case s of [] \<Rightarrow> [] | x # xs \<Rightarrow> if x \<noteq> newline then [([], xs)] else [])"
| "rmatch Bol b s = (if b then [([], s)] else [])"
| "rmatch Eol b s = (if s = [] then [([], s)] else [])"
| "rmatch Eps b s = [([], s)]"
| "rmatch (Seq r1 r2) b s =
     concat (map (\<lambda>m1. map (\<lambda>m2. (fst m1 @ fst m2, snd m2))
                            (rmatch r2 (b \<and> length (snd m1) = length s) (snd m1)))
                 (rmatch r1 b s))"
| "rmatch (Group r) b s =
     map (\<lambda>m. (Some (take (length s - length (snd m)) s) # fst m, snd m)) (rmatch r b s)"
| "rmatch (Star r) b s =
     concat (map (\<lambda>m. if length (snd m) < length s
                        then map (\<lambda>m'. (if length (snd m') = length (snd m) then fst m else fst m', snd m'))
                                 (rmatch (Star r) False (snd m))
                        else [])
                 (rmatch r b s))
     @ [(replicate (ngroups r) None, s)]"

declare rmatch.simps(8) [simp del]

text \<open>
  Modelled from the spec: the search for the leftmost match, trying every start position
  in turn. The result is the text of the whole match followed by the texts of the
  capture groups.
\<close>

fun findFrom :: "regex \<Rightarrow> bool \<Rightarrow> string \<Rightarrow> string option list option" where
  "findFrom re b [] =
     (case rmatch re b [] of [] \<Rightarrow> None | m # _ \<Rightarrow> Some (Some [] # fst m))"
| "findFrom re b (x # xs) =
     (case rmatch re b (x # xs) of
        [] \<Rightarrow> findFrom re False xs
      | m # _ \<Rightarrow> Some (Some (take (length (x # xs) - length (snd m)) (x # xs)) # fst m))"

text \<open>Modelled from the spec: whether, and how, an expression matches a series name.\<close>

definition regexFind :: "regex \<Rightarrow> string \<Rightarrow> string option list option" where
  "regexFind re s = findFrom re True s"

text \<open>Modelled from the spec: a list of expressions in sequence.\<close>

fun mkseq :: "regex list \<Rightarrow> regex" where
  "mkseq [] = Eps"
| "mkseq [r] = r"
| "mkseq (r # rs) = Seq r (mkseq rs)"

text \<open>
  Modelled from the spec: the characters with a meaning of their own in the text of a
  regular expression.
\<close>

definition metachars :: string where
  "metachars = [CHR 0x5C, CHR ''^'', CHR ''$'', CHR ''.'', CHR ''*'', CHR ''('', CHR '')'',
                CHR ''['', CHR '']'', CHR ''+'', CHR ''?'', CHR ''{'', CHR ''}'', CHR ''|'']"

text \<open>Modelled from the spec: the expressions that \<open>*\<close> may follow.\<close>

fun repeatable :: "regex \<Rightarrow> bool" where
  "repeatable (Star r) = False"
| "repeatable Bol = False"
| "repeatable Eol = False"
| "repeatable _ = True"

text \<open>
  Modelled from the spec: reading the text of a regular expression, with the sequence
  read so far (last first) and the sequences of the groups still open. Character
  classes, alternation and the other repetitions are not read: such a text is malformed.
\<close>

fun parseRegexFrom :: "string \<Rightarrow> regex list \<Rightarrow> regex list list \<Rightarrow> regex option" where
  "parseRegexFrom [] cur stack = (if stack = [] then Some (mkseq (rev cur)) else None)"
| "parseRegexFrom (c # cs) cur stack =
     (if c = CHR ''('' then parseRegexFrom cs [] (cur # stack)
      else if c = CHR '')'' then
        (case stack of
           [] \<Rightarrow> None
         | outer # stack' \<Rightarrow> parseRegexFrom cs (Group (mkseq (rev cur)) # outer) stack')
      else if c = CHR ''*'' then
        (case cur of
           [] \<Rightarrow> None
         | r # rs \<Rightarrow> if repeatable r then parseRegexFrom cs (Star r # rs) stack else None)
      else if c = CHR ''^'' then parseRegexFrom cs (Bol # cur) stack
      else if c = CHR ''$'' then parseRegexFrom cs (Eol # cur) stack
      else if c = CHR ''.'' then parseRegexFrom cs (Dot # cur) stack
      else if c = CHR 0x5C then
        (case cs of
           [] \<Rightarrow> None
         | d # ds \<Rightarrow> if d \<in> set metachars then parseRegexFrom ds (Chr d # cur) stack else None)
      else if c \<in> set metachars then None
      else parseRegexFrom cs (Chr c # cur) stack)"

text \<open>Modelled from the spec: compiling the text of a regular expression.\<close>

definition parseRegex :: "string \<Rightarrow> regex option" where
  "parseRegex src = parseRegexFrom src [] []"

subsection \<open>Rules and namers\<close>

text \<open>Modelled from the spec: an entry of \<open>seriesFilters\<close>, \<open>{is: regex}\<close> or \<open>{isNot: regex}\<close>.\<close>

datatype seriesFilter = Is string | IsNot string

text \<open>Modelled from the spec: what \<open>resources.overrides\<close> maps a label to, \<open>{group, resource}\<close>.\<close>

record resourceRef =
  group :: string
  resource :: string

text \<open>
  Modelled from the spec: a discovery rule, with the fields of its data model. An absent
  \<open>name.as\<close> or \<open>resources.template\<close> is the empty string.
\<close>

record Rule =
  seriesQuery :: string
  seriesFilters :: "seriesFilter list"
  name_matches :: string
  name_as :: string
  resources_overrides :: "(string \<times> resourceRef) list"
  resources_template :: string
  resources_namespaced :: bool
  metricsQuery :: string

text \<open>
  Modelled from the spec: the configuration errors: a malformed rule, a reference to a
  capture group that \<open>name.matches\<close> does not have, an unresolved resource mapping, an
  unknown placeholder.
\<close>

datatype config_error =
    MalformedRegex string
  | UnknownCaptureGroup nat
  | UnknownOverride string
  | UnknownPlaceholder string
  | UnclosedPlaceholder

text \<open>Modelled from the spec: a compiled entry of \<open>seriesFilters\<close>.\<close>

datatype compiledFilter = MustMatch regex | MustNotMatch regex

text \<open>Modelled from the spec: the namer of a rule, the compiled form that \<open>compile\<close> returns.\<close>

record Namer =
  rule :: Rule
  filters :: "compiledFilter list"
  matches :: regex
  as_template :: string

text \<open>Modelled from the spec: the value of a decimal digit in a reference \<open>$1, $2, \<dots>\<close>.\<close>

definition digitVal :: "char \<Rightarrow> nat option" where
  "digitVal c =
     map_of [(CHR ''0'', 0), (CHR ''1'', 1), (CHR ''2'', 2), (CHR ''3'', 3), (CHR ''4'', 4),
             (CHR ''5'', 5), (CHR ''6'', 6), (CHR ''7'', 7), (CHR ''8'', 8), (CHR ''9'', 9)] c"

text \<open>
  Modelled from the spec: what a reference stands for: the text of the group of that
  number (number 0 is the whole match), nothing for a group that took no part, and the
  sign itself when no digit follows it.
\<close>

fun groupText :: "string option list \<Rightarrow> nat option \<Rightarrow> string" where
  "groupText caps None = [CHR ''$'']"
| "groupText caps (Some k) =
     (if k < length caps then (case caps ! k of None \<Rightarrow> [] | Some g \<Rightarrow> g) else [])"

text \<open>
  Modelled from the spec: expanding the capture groups into the \<open>name.as\<close> template.
  \<open>expandRef\<close> reads the digits that follow a \<open>$\<close>.
\<close>

fun expand :: "string option list \<Rightarrow> string \<Rightarrow> string"
  and expandRef :: "string option list \<Rightarrow> nat option \<Rightarrow> string \<Rightarrow> string" where
  "expand caps [] = []"
| "expand caps (c # cs) = (if c = CHR ''$'' then expandRef caps None cs else c # expand caps cs)"
| "expandRef caps acc [] = groupText caps acc"
| "expandRef caps acc (c # cs) =
     (case digitVal c of
        Some d \<Rightarrow> expandRef caps (Some (10 * (case acc of None \<Rightarrow> 0 | Some k \<Rightarrow> k) + d)) cs
      | None \<Rightarrow>
          groupText caps acc @ (if c = CHR ''$'' then expandRef caps None cs else c # expand caps cs))"

text \<open>Modelled from the spec: the numbers of the capture groups a \<open>name.as\<close> template refers to.\<close>

fun groupRefs :: "string \<Rightarrow> nat list"
  and groupRefsRef :: "nat option \<Rightarrow> string \<Rightarrow> nat list" where
  "groupRefs [] = []"
| "groupRefs (c # cs) = (if c = CHR ''$'' then groupRefsRef None cs else groupRefs cs)"
| "groupRefsRef acc [] = (case acc of None \<Rightarrow> [] | Some k \<Rightarrow> [k])"
| "groupRefsRef acc (c # cs) =
     (case digitVal c of
        Some d \<Rightarrow> groupRefsRef (Some (10 * (case acc of None \<Rightarrow> 0 | Some k \<Rightarrow> k) + d)) cs
      | None \<Rightarrow>
          (case acc of None \<Rightarrow> [] | Some k \<Rightarrow> [k])
          @ (if c = CHR ''$'' then groupRefsRef None cs else groupRefs cs))"

text \<open>Modelled from the spec: compiling \<open>seriesFilters\<close>, in the declared order.\<close>

fun compileFilters :: "seriesFilter list \<Rightarrow> config_error + compiledFilter list" where
  "compileFilters [] = Inr []"
| "compileFilters (f # fs) =
     (case (case f of
              Is src \<Rightarrow> (case parseRegex src of None \<Rightarrow> Inl (MalformedRegex src) | Some r \<Rightarrow> Inr (MustMatch r))
            | IsNot src \<Rightarrow> (case parseRegex src of None \<Rightarrow> Inl (MalformedRegex src) | Some r \<Rightarrow> Inr (MustNotMatch r))) of
        Inl err \<Rightarrow> Inl err
      | Inr cf \<Rightarrow> (case compileFilters fs of Inl err \<Rightarrow> Inl err | Inr cfs \<Rightarrow> Inr (cf # cfs)))"

text \<open>
  Modelled from the spec: \<open>compile(rule)\<close> of the Namer. It compiles the expressions once,
  checks that \<open>name.as\<close> refers only to capture groups of \<open>name.matches\<close>, and fails when an
  override is unknown to the resource-mapping service \<open>known\<close>. An absent \<open>name.as\<close> is
  \<open>$1\<close>, as the sample configuration says of its first rule.
\<close>

definition compile :: "(resourceRef \<Rightarrow> bool) \<Rightarrow> Rule \<Rightarrow> config_error + Namer" where
  "compile known r =
    (case compileFilters (seriesFilters r) of
       Inl err \<Rightarrow> Inl err
     | Inr cfs \<Rightarrow>
         (case parseRegex (name_matches r) of
            None \<Rightarrow> Inl (MalformedRegex (name_matches r))
          | Some re \<Rightarrow>
              (let tmpl = (if name_as r = [] then ''$1'' else name_as r) in
               case filter (\<lambda>k. ngroups re < k) (groupRefs tmpl) of
                 k # _ \<Rightarrow> Inl (UnknownCaptureGroup k)
               | [] \<Rightarrow>
                   (case filter (\<lambda>ov. \<not> known (snd ov)) (resources_overrides r) of
                      ov # _ \<Rightarrow> Inl (UnknownOverride (fst ov))
                    | [] \<Rightarrow> Inr \<lparr> rule = r, filters = cfs, matches = re, as_template = tmpl \<rparr>))))"

text \<open>Modelled from the spec: one allow or deny test of \<open>seriesFilters\<close> on a series name.\<close>

fun passes :: "compiledFilter \<Rightarrow> string \<Rightarrow> bool" where
  "passes (MustMatch re) raw = (regexFind re raw \<noteq> None)"
| "passes (MustNotMatch re) raw = (regexFind re raw = None)"

text \<open>
  Modelled from the spec: \<open>deriveName(rawSeriesName)\<close> of the Namer. The filters are
  applied in order, then \<open>name.matches\<close>; \<open>None\<close> says that the rule does not claim the
  series, otherwise the capture groups are expanded into the template.
\<close>

definition deriveName :: "Namer \<Rightarrow> string \<Rightarrow> string option" where
  "deriveName n raw =
    (if list_all (\<lambda>f. passes f raw) (filters n) then
       (case regexFind (matches n) raw of
          None \<Rightarrow> None
        | Some caps \<Rightarrow> Some (expand caps (as_template n)))
     else None)"

subsection \<open>Query templates\<close>


text \<open>Modelled from the spec: the context a \<open>metricsQuery\<close> template is rendered against.\<close>

record queryContext =
  Series :: string
  LabelMatchers :: string
  GroupBy :: string












subsection \<open>The first rule of the sample configuration\<close>

text \<open>
  Modelled from the spec: a resource-mapping service that knows the namespace and pod
  resources of the core group.
\<close>

definition knownResources :: "resourceRef \<Rightarrow> bool" where
  "knownResources ref = (group ref = [] \<and> resource ref \<in> set [''namespace'', ''pod''])"

text \<open>
  Modelled from the spec: the rule of its testable properties. \<open>seriesQuery\<close> and
  \<open>name.matches\<close> are the ones the specification gives for it (the first rule of
  \<open>docs/sample-config.yaml\<close> has the same \<open>name.matches\<close> and a label selector as
  \<open>seriesQuery\<close>); the overrides are those of that first rule. \<open>metricsQuery\<close> is the
  text that line 30 of the file shows between its outer quotes: the inner quotes of
  that line are not escaped, so this is the text as written and not what a reader of
  the file format returns. Naming reads neither \<open>seriesQuery\<close> nor \<open>metricsQuery\<close>.
\<close>

definition containerSecondsRule :: Rule where
  "containerSecondsRule =
     \<lparr> seriesQuery = ''^container_.*_seconds_total$'',
       seriesFilters = [],
       name_matches = ''^container_(.*)_seconds_total$'',
       name_as = [],
       resources_overrides =
         [(''namespace'', \<lparr> group = [], resource = ''namespace'' \<rparr>),
          (''pod'', \<lparr> group = [], resource = ''pod'' \<rparr>)],
       resources_template = [],
       resources_namespaced = True,
       metricsQuery = ''sum(rate(<<.Series>>{<<.LabelMatchers>>,container!=\"POD\"}[2m])) by (<<.GroupBy>>)'' \<rparr>"

text \<open>Modelled from the spec: a sequence of literal characters followed by an expression.\<close>

fun lits :: "string \<Rightarrow> regex \<Rightarrow> regex" where
  "lits [] r = r"
| "lits (c # cs) r = Seq (Chr c) (lits cs r)"

text \<open>
  Modelled from the spec: the expression \<open>^pre(.*)suf$\<close> for literal texts \<open>pre\<close> and
  \<open>suf\<close>.
\<close>

definition anchoredCapture :: "string \<Rightarrow> string \<Rightarrow> regex" where
  "anchoredCapture pre suf = Seq Bol (lits pre (Seq (Group (Star Dot)) (lits suf Eol)))"

text \<open>Modelled from the spec: the namer that \<open>compile\<close> returns for the rule above.\<close>

definition containerSecondsNamer :: Namer where
  "containerSecondsNamer =
     \<lparr> rule = containerSecondsRule, filters = [],
       matches = anchoredCapture ''container_'' ''_seconds_total'', as_template = ''$1'' \<rparr>"

section \<open>Properties of the adapter command\<close>

text \<open>
  Claim C10. \<open>makeKubeconfigHTTPClient\<close> returns an error when in-cluster auth is requested
  together with a non-empty kubeconfig path, whatever the collaborators do, and returns
  the default HTTP client and no error when neither source of auth is given.
\<close>

theorem makeKubeconfigHTTPClient_auth_sources:
  "(kubeConfigPath \<noteq> [] \<longrightarrow>
      makeKubeconfigHTTPClient e True kubeConfigPath =
        Inl (Errorf ''may not use both in-cluster auth and an explicit kubeconfig at the same time'' []))
   \<and> makeKubeconfigHTTPClient e False [] = Inr DefaultClient"
  by (simp add: makeKubeconfigHTTPClient_def)

text \<open>The statement of C10 at a kubeconfig path, in the sample environment.\<close>

theorem makeKubeconfigHTTPClient_auth_sources_witness:
  "''/root/.kube/config'' \<noteq> []
   \<and> makeKubeconfigHTTPClient sampleEnv True ''/root/.kube/config'' =
        Inl (Errorf ''may not use both in-cluster auth and an explicit kubeconfig at the same time'' [])
   \<and> makeKubeconfigHTTPClient sampleEnv False [] = Inr DefaultClient"
  using makeKubeconfigHTTPClient_auth_sources [of "''/root/.kube/config''" sampleEnv] by simp

lemma main_stops_when_loadConfig_fails:
  assumes "fst (loadConfig e (parseFlags e initialAdapter)) \<noteq> None"
  shows "(\<exists>f err. exit_of (main e) = Fatalf f err) \<and> \<not> serverRan (main e)"
proof (cases "makePromClient e (parseFlags e initialAdapter)")
  case (Pair r out)
  show ?thesis
  proof (cases r)
    case (Inl err)
    with Pair show ?thesis by (simp add: main_def stopped_def)
  next
    case (Inr promClient)
    obtain lerr cmd1 where lc: "loadConfig e (parseFlags e initialAdapter) = (lerr, cmd1)"
      by (cases "loadConfig e (parseFlags e initialAdapter)")
    with assms obtain err where "lerr = Some err" by auto
    with Pair Inr lc show ?thesis by (simp add: main_def stopped_def)
  qed
qed

text \<open>
  Claim C5. With no configuration file given, \<open>loadConfig\<close> returns the error that asks
  for \<open>--config\<close>; when reading the file fails it returns that failure wrapped. Whenever
  \<open>loadConfig\<close> returns an error on the parsed command line (in particular when
  \<open>--config\<close> is absent), \<open>main\<close> ends in \<open>glog.Fatalf\<close> and the server is never run.
\<close>

theorem loadConfig_failure_refuses_start:
  "(AdapterConfigFile cmd = [] \<longrightarrow>
      fst (loadConfig e cmd) =
        Some (Errorf ''no metrics discovery configuration file specified (make sure to use --config)'' []))
   \<and> (AdapterConfigFile cmd \<noteq> [] \<and> FromFile e (AdapterConfigFile cmd) = Inl ferr \<longrightarrow>
      fst (loadConfig e cmd) =
        Some (Errorf ''unable to load metrics discovery configuration: %v'' [V ferr]))
   \<and> (fst (loadConfig e (parseFlags e initialAdapter)) \<noteq> None \<longrightarrow>
      (\<exists>f err. exit_of (main e) = Fatalf f err) \<and> \<not> serverRan (main e))
   \<and> (flag_config e = None \<longrightarrow>
      (\<exists>f err. exit_of (main e) = Fatalf f err) \<and> \<not> serverRan (main e))"
proof (intro conjI impI)
  assume "AdapterConfigFile cmd = []"
  then show "fst (loadConfig e cmd) =
        Some (Errorf ''no metrics discovery configuration file specified (make sure to use --config)'' [])"
    by (simp add: loadConfig_def)
next
  assume "AdapterConfigFile cmd \<noteq> [] \<and> FromFile e (AdapterConfigFile cmd) = Inl ferr"
  then show "fst (loadConfig e cmd) =
        Some (Errorf ''unable to load metrics discovery configuration: %v'' [V ferr])"
    by (simp add: loadConfig_def)
next
  assume a: "fst (loadConfig e (parseFlags e initialAdapter)) \<noteq> None"
  from main_stops_when_loadConfig_fails [OF a]
  show "\<exists>f err. exit_of (main e) = Fatalf f err" and "\<not> serverRan (main e)" by simp_all
next
  assume "flag_config e = None"
  then have "AdapterConfigFile (parseFlags e initialAdapter) = []"
    by (simp add: parseFlags_def initialAdapter_def)
  then have a: "fst (loadConfig e (parseFlags e initialAdapter)) \<noteq> None"
    by (simp add: loadConfig_def)
  from main_stops_when_loadConfig_fails [OF a]
  show "\<exists>f err. exit_of (main e) = Fatalf f err" and "\<not> serverRan (main e)" by simp_all
qed

text \<open>
  The statement of C5 on two runs: one without \<open>--config\<close>, one whose configuration
  file cannot be read.
\<close>

theorem loadConfig_failure_refuses_start_witness:
  "AdapterConfigFile initialAdapter = []
   \<and> fst (loadConfig noConfigEnv initialAdapter) =
        Some (Errorf ''no metrics discovery configuration file specified (make sure to use --config)'' [])
   \<and> flag_config noConfigEnv = None
   \<and> exit_of (main noConfigEnv) =
        Fatalf ''unable to load metrics discovery config: %v''
          (Errorf ''no metrics discovery configuration file specified (make sure to use --config)'' [])
   \<and> \<not> serverRan (main noConfigEnv)
   \<and> AdapterConfigFile (parseFlags missingConfigEnv initialAdapter) \<noteq> []
   \<and> FromFile missingConfigEnv (AdapterConfigFile (parseFlags missingConfigEnv initialAdapter)) =
        Inl (External ''no such file'')
   \<and> fst (loadConfig missingConfigEnv (parseFlags missingConfigEnv initialAdapter)) =
        Some (Errorf ''unable to load metrics discovery configuration: %v'' [V (External ''no such file'')])
   \<and> exit_of (main missingConfigEnv) =
        Fatalf ''unable to load metrics discovery config: %v''
          (Errorf ''unable to load metrics discovery configuration: %v'' [V (External ''no such file'')])
   \<and> \<not> serverRan (main missingConfigEnv)"
  using loadConfig_failure_refuses_start [of initialAdapter noConfigEnv "External ''no such file''"]
    loadConfig_failure_refuses_start
      [of "parseFlags missingConfigEnv initialAdapter" missingConfigEnv "External ''no such file''"]
  by (simp add: noConfigEnv_def missingConfigEnv_def sampleEnv_def initialAdapter_def parseFlags_def
      loadConfig_def main_def makePromClient_def makeKubeconfigHTTPClient_def stopped_def)

lemma loadConfig_keeps_provider:
  "loadConfig e cmd = (r, cmd1) \<Longrightarrow> customMetricsProvider cmd1 = customMetricsProvider cmd"
  by (auto simp: loadConfig_def split: if_splits sum.splits)

lemma parseFlags_keeps_provider:
  "customMetricsProvider (parseFlags e cmd) = customMetricsProvider cmd"
  by (simp add: parseFlags_def)

lemma main_without_rules:
  assumes a: "loadConfig e (parseFlags e initialAdapter) = (None, cmd1)"
    and b: "metricsConfig cmd1 = Some mc" and c: "length (Rules mc) = 0"
  shows "customMetricsProvider (adapter (main e)) = None \<and> \<not> relistStarted (main e)"
proof -
  have none1: "customMetricsProvider cmd1 = None"
    using loadConfig_keeps_provider [OF a]
    by (simp add: parseFlags_keeps_provider initialAdapter_def)
  have none0: "customMetricsProvider (parseFlags e initialAdapter) = None"
    by (simp add: parseFlags_keeps_provider initialAdapter_def)
  from b c have mp: "\<And>pc. makeProvider e cmd1 pc = Returned (Inr None) False"
    by (simp add: makeProvider_def)
  show ?thesis
  proof (cases "makePromClient e (parseFlags e initialAdapter)")
    case (Pair r out)
    show ?thesis
    proof (cases r)
      case (Inl err)
      with Pair none0 show ?thesis by (simp add: main_def stopped_def)
    next
      case (Inr pc)
      with Pair a none1 mp show ?thesis
        by (simp add: main_def stopped_def split: option.splits prod.splits)
    qed
  qed
qed

text \<open>
  Claim C9. With a loaded configuration that has no discovery rules, \<open>makeProvider\<close>
  returns a nil provider and a nil error without starting the relist runner; and in
  \<open>main\<close>, after such a configuration is loaded, no custom metrics provider is attached
  to the command and the runner is not started.
\<close>

theorem makeProvider_no_rules_no_provider:
  "(metricsConfig cmd = Some mc \<and> length (Rules mc) = 0 \<longrightarrow>
      makeProvider e cmd promClient = Returned (Inr None) False)
   \<and> (loadConfig e (parseFlags e initialAdapter) = (None, cmd1) \<and> metricsConfig cmd1 = Some mc
        \<and> length (Rules mc) = 0 \<longrightarrow>
      customMetricsProvider (adapter (main e)) = None \<and> \<not> relistStarted (main e))"
proof (rule conjI)
  show "metricsConfig cmd = Some mc \<and> length (Rules mc) = 0 \<longrightarrow>
      makeProvider e cmd promClient = Returned (Inr None) False"
    by (simp add: makeProvider_def)
next
  show "loadConfig e (parseFlags e initialAdapter) = (None, cmd1) \<and> metricsConfig cmd1 = Some mc
        \<and> length (Rules mc) = 0 \<longrightarrow>
      customMetricsProvider (adapter (main e)) = None \<and> \<not> relistStarted (main e)"
    using main_without_rules [of e cmd1 mc] by blast
qed

text \<open>
  The statement of C9 on a run whose configuration file has no rules: the server runs,
  with no custom metrics provider.
\<close>

theorem makeProvider_no_rules_no_provider_witness:
  "metricsConfig (snd (loadConfig sampleEnv (parseFlags sampleEnv initialAdapter))) = Some emptyConfig
   \<and> length (Rules emptyConfig) = 0
   \<and> loadConfig sampleEnv (parseFlags sampleEnv initialAdapter) =
       (None, snd (loadConfig sampleEnv (parseFlags sampleEnv initialAdapter)))
   \<and> makeProvider sampleEnv (snd (loadConfig sampleEnv (parseFlags sampleEnv initialAdapter)))
       (ClientForAPI DefaultClient ''http://prometheus:9090'') = Returned (Inr None) False
   \<and> customMetricsProvider (adapter (main sampleEnv)) = None
   \<and> \<not> relistStarted (main sampleEnv)
   \<and> exit_of (main sampleEnv) = Exit
   \<and> serverRan (main sampleEnv)"
  using makeProvider_no_rules_no_provider
    [of "snd (loadConfig sampleEnv (parseFlags sampleEnv initialAdapter))" emptyConfig sampleEnv
        "ClientForAPI DefaultClient ''http://prometheus:9090''"
        "snd (loadConfig sampleEnv (parseFlags sampleEnv initialAdapter))"]
  by (simp add: sampleEnv_def emptyConfig_def initialAdapter_def parseFlags_def
      loadConfig_def main_def makePromClient_def makeKubeconfigHTTPClient_def makeProvider_def
      addResourceMetricsAPI_def stopped_def)

section \<open>Properties of the rule engine\<close>

subsection \<open>Matching \<open>^pre(.*)suf$\<close>\<close>

lemma parse_container: "parseRegex ''^container_(.*)_seconds_total$'' = Some (anchoredCapture ''container_'' ''_seconds_total'')"
  by code_simp

lemma rmatch_Chr_Seq:
  "rmatch (Seq (Chr c) r) b s =
     (case s of [] \<Rightarrow> [] | x # xs \<Rightarrow> if x = c then rmatch r False xs else [])"
  by (cases s) simp_all

lemma rmatch_lits_Cons:
  "rmatch (lits (c # p) r) b s =
     (case s of [] \<Rightarrow> [] | x # xs \<Rightarrow> if x = c then rmatch (lits p r) False xs else [])"
  by (simp only: lits.simps rmatch_Chr_Seq)

lemma rmatch_lits:
  "rmatch (lits p r) b s =
     (if p = [] then rmatch r b s
      else if take (length p) s = p then rmatch r False (drop (length p) s) else [])"
proof (induction p arbitrary: b s)
  case Nil
  show ?case by simp
next
  case (Cons c p)
  show ?case
  proof (cases s)
    case Nil
    then show ?thesis by (simp add: rmatch_lits_Cons del: lits.simps)
  next
    case (Cons x xs)
    then show ?thesis
      by (auto simp: rmatch_lits_Cons Cons.IH simp del: lits.simps)
  qed
qed

lemma rmatch_lits_Eol:
  "rmatch (lits p Eol) b s = (if s = p then [([], [])] else [])"
proof (induction p arbitrary: b s)
  case Nil
  show ?case by simp
next
  case (Cons c p)
  show ?case by (cases s) (auto simp: rmatch_lits_Cons Cons.IH simp del: lits.simps)
qed


lemma rmatch_Star_Dot_Nil: "rmatch (Star Dot) b [] = [([], [])]"
  by (subst rmatch.simps) simp

lemma rmatch_Star_Dot_Cons:
  "rmatch (Star Dot) b (x # xs) =
     (if x \<noteq> newline
      then map (\<lambda>m'. (if length (snd m') = length xs then [] else fst m', snd m'))
             (rmatch (Star Dot) False xs)
      else []) @ [([], x # xs)]"
  by (subst rmatch.simps) (simp del: rmatch.simps(8))

lemma rmatch_Star_Dot_caps: "m \<in> set (rmatch (Star Dot) b s) \<Longrightarrow> fst m = []"
proof (induction s arbitrary: b m)
  case Nil
  then show ?case by (simp add: rmatch_Star_Dot_Nil)
next
  case (Cons x xs)
  then show ?case
    by (auto simp: rmatch_Star_Dot_Cons split: if_splits)
qed

lemma rmatch_Star_Dot_rest:
  "snd ` set (rmatch (Star Dot) b s) = {t. \<exists>g. s = g @ t \<and> newline \<notin> set g}"
proof (induction s arbitrary: b)
  case Nil
  show ?case by (simp add: rmatch_Star_Dot_Nil)
next
  case (Cons x xs)
  have img: "snd ` set (rmatch (Star Dot) b (x # xs)) =
      (if x \<noteq> newline then snd ` set (rmatch (Star Dot) False xs) else {}) \<union> {x # xs}"
    by (simp add: rmatch_Star_Dot_Cons image_image)
  have "{t. \<exists>g. x # xs = g @ t \<and> newline \<notin> set g} =
      (if x \<noteq> newline then {t. \<exists>g. xs = g @ t \<and> newline \<notin> set g} else {}) \<union> {x # xs}"
    (is "?L = ?R")
  proof (intro set_eqI iffI)
    fix t assume "t \<in> ?L"
    then obtain g where gt: "x # xs = g @ t" and nl: "newline \<notin> set g" by auto
    show "t \<in> ?R"
    proof (cases g)
      case Nil
      with gt show ?thesis by simp
    next
      case (Cons y g')
      with gt nl show ?thesis by auto
    qed
  next
    fix t assume "t \<in> ?R"
    then consider "t = x # xs" | g where "x \<noteq> newline" "xs = g @ t" "newline \<notin> set g"
      by (auto split: if_splits)
    then show "t \<in> ?L"
    proof cases
      case 1
      then show ?thesis by (auto intro: exI [of _ "[]"])
    next
      case 2
      then have "x # xs = (x # g) @ t \<and> newline \<notin> set (x # g)" by auto
      then show ?thesis by blast
    qed
  qed
  with img Cons.IH show ?case by simp
qed

lemma rmatch_capture_suffix:
  "set (rmatch (Seq (Group (Star Dot)) (lits suf Eol)) b s) =
     {([Some g], []) | g. s = g @ suf \<and> newline \<notin> set g}"
  (is "?L = ?R")
proof (intro set_eqI iffI)
  fix e assume "e \<in> ?L"
  then obtain m where m: "m \<in> set (rmatch (Star Dot) b s)" and sm: "snd m = suf"
    and e: "e = ([Some (take (length s - length (snd m)) s)] @ fst m, [])"
    by (auto simp: rmatch_lits_Eol split: if_splits)
  from m have c: "fst m = []" by (rule rmatch_Star_Dot_caps)
  from m have "snd m \<in> snd ` set (rmatch (Star Dot) b s)" by simp
  then obtain g where g: "s = g @ snd m" "newline \<notin> set g"
    unfolding rmatch_Star_Dot_rest by auto
  with sm c e show "e \<in> ?R" by auto
next
  fix e assume "e \<in> ?R"
  then obtain g where e: "e = ([Some g], [])" and s: "s = g @ suf" and nl: "newline \<notin> set g"
    by auto
  from s nl have "suf \<in> snd ` set (rmatch (Star Dot) b s)"
    unfolding rmatch_Star_Dot_rest by auto
  then obtain m where m: "m \<in> set (rmatch (Star Dot) b s)" and sm: "snd m = suf" by auto
  from m have c: "fst m = []" by (rule rmatch_Star_Dot_caps)
  have "([Some (take (length s - length (snd m)) s)] @ fst m, []) \<in> ?L"
    using m sm by (auto simp: rmatch_lits_Eol intro!: bexI [of _ m])
  with c sm s e show "e \<in> ?L" by simp
qed

lemma rmatch_Bol_Seq: "rmatch (Seq Bol r) b s = (if b then rmatch r True s else [])"
  by simp

lemma rmatch_anchoredCapture_start:
  "rmatch (anchoredCapture pre suf) True s =
     (if take (length pre) s = pre
      then rmatch (Seq (Group (Star Dot)) (lits suf Eol)) (pre = []) (drop (length pre) s)
      else [])"
  by (cases "pre = []") (simp_all add: anchoredCapture_def rmatch_Bol_Seq rmatch_lits del: rmatch.simps)

lemma rmatch_anchoredCapture_later: "rmatch (anchoredCapture pre suf) False s = []"
  by (simp add: anchoredCapture_def rmatch_Bol_Seq del: rmatch.simps)

lemma findFrom_anchoredCapture_later: "findFrom (anchoredCapture pre suf) False s = None"
  by (induction s) (simp_all add: rmatch_anchoredCapture_later)

lemma regexFind_anchoredCapture:
  "regexFind (anchoredCapture pre suf) s =
     (case rmatch (anchoredCapture pre suf) True s of
        [] \<Rightarrow> None
      | m # _ \<Rightarrow> Some (Some (take (length s - length (snd m)) s) # fst m))"
  by (cases s) (simp_all add: regexFind_def findFrom_anchoredCapture_later split: list.splits)

lemma regexFind_anchoredCapture_match:
  assumes "newline \<notin> set g"
  shows "regexFind (anchoredCapture pre suf) (pre @ g @ suf) = Some [Some (pre @ g @ suf), Some g]"
proof -
  let ?L = "rmatch (Seq (Group (Star Dot)) (lits suf Eol)) (pre = []) (g @ suf)"
  have set: "set ?L = {([Some g], [])}"
    using assms unfolding rmatch_capture_suffix by auto
  then have "?L \<noteq> []" by (metis empty_set insert_not_empty)
  then obtain m ms where L: "?L = m # ms" by (meson neq_Nil_conv)
  then have "m \<in> set ?L" by (simp del: rmatch.simps)
  then have "m = ([Some g], [])" unfolding set by blast
  with L show ?thesis
    by (simp add: regexFind_anchoredCapture rmatch_anchoredCapture_start del: rmatch.simps)
qed

lemma regexFind_anchoredCapture_no_match:
  assumes "\<not> (\<exists>g. s = pre @ g @ suf \<and> newline \<notin> set g)"
  shows "regexFind (anchoredCapture pre suf) s = None"
proof (cases "take (length pre) s = pre")
  case False
  then show ?thesis
    by (simp add: regexFind_anchoredCapture rmatch_anchoredCapture_start del: rmatch.simps)
next
  case True
  then have s: "s = pre @ drop (length pre) s" by (metis append_take_drop_id)
  have "\<And>g. drop (length pre) s = g @ suf \<Longrightarrow> newline \<notin> set g \<Longrightarrow> False"
  proof -
    fix g assume "drop (length pre) s = g @ suf" and nl: "newline \<notin> set g"
    with s have "s = pre @ g @ suf" by simp
    with nl assms show False by blast
  qed
  then have "set (rmatch (Seq (Group (Star Dot)) (lits suf Eol)) (pre = []) (drop (length pre) s)) = {}"
    unfolding rmatch_capture_suffix by blast
  then show ?thesis
    using True by (simp add: regexFind_anchoredCapture rmatch_anchoredCapture_start del: rmatch.simps)
qed

subsection \<open>Deriving names\<close>

lemma compile_containerSecondsRule:
  "compile knownResources containerSecondsRule = Inr containerSecondsNamer"
  by (simp add: compile_def containerSecondsRule_def parse_container anchoredCapture_def
      knownResources_def digitVal_def containerSecondsNamer_def)

lemma expand_first_group: "expand [Some whole, Some g] ''$1'' = g"
  by (simp add: digitVal_def)

lemma deriveName_containerSecondsNamer_match:
  "newline \<notin> set g \<Longrightarrow>
     deriveName containerSecondsNamer (''container_'' @ g @ ''_seconds_total'') = Some g"
  using regexFind_anchoredCapture_match [of g "''container_''" "''_seconds_total''"]
  by (simp add: deriveName_def containerSecondsNamer_def expand_first_group del: expand.simps)

lemma deriveName_containerSecondsNamer_no_match:
  "\<not> (\<exists>g. raw = ''container_'' @ g @ ''_seconds_total'' \<and> newline \<notin> set g) \<Longrightarrow>
     deriveName containerSecondsNamer raw = None"
  using regexFind_anchoredCapture_no_match [of raw "''container_''" "''_seconds_total''"]
  by (simp add: deriveName_def containerSecondsNamer_def)

text \<open>
  Claim C1. The rule with \<open>name.matches = "^container_(.*)_seconds_total$"\<close> and no
  \<open>name.as\<close> compiles, and its namer derives \<open>cpu_usage\<close> from
  \<open>container_cpu_usage_seconds_total\<close>. It claims no series whose name the expression does
  not match. The expression is characterised without the matcher: a name
  \<open>container_\<close> \<open>g\<close> \<open>_seconds_total\<close> with no line feed in \<open>g\<close> gets the name \<open>g\<close>, the
  captured group verbatim, and every other name is not claimed.
\<close>

theorem deriveName_container_seconds_total:
  "\<exists>n. compile knownResources containerSecondsRule = Inr n
     \<and> parseRegex (name_matches containerSecondsRule) = Some (matches n)
     \<and> deriveName n ''container_cpu_usage_seconds_total'' = Some ''cpu_usage''
     \<and> (\<forall>raw. regexFind (matches n) raw = None \<longrightarrow> deriveName n raw = None)
     \<and> (\<forall>g. newline \<notin> set g \<longrightarrow>
            deriveName n (''container_'' @ g @ ''_seconds_total'') = Some g)
     \<and> (\<forall>raw. \<not> (\<exists>g. raw = ''container_'' @ g @ ''_seconds_total'' \<and> newline \<notin> set g) \<longrightarrow>
            deriveName n raw = None)"
proof (intro exI conjI allI impI)
  show "compile knownResources containerSecondsRule = Inr containerSecondsNamer"
    by (rule compile_containerSecondsRule)
  show "parseRegex (name_matches containerSecondsRule) = Some (matches containerSecondsNamer)"
    by (simp add: containerSecondsRule_def containerSecondsNamer_def parse_container)
  have "newline \<notin> set ''cpu_usage''" by (simp add: newline_def)
  from deriveName_containerSecondsNamer_match [OF this]
  show "deriveName containerSecondsNamer ''container_cpu_usage_seconds_total'' = Some ''cpu_usage''"
    by simp
next
  fix raw assume "regexFind (matches containerSecondsNamer) raw = None"
  then show "deriveName containerSecondsNamer raw = None"
    by (simp add: deriveName_def)
next
  fix g assume "newline \<notin> set g"
  then show "deriveName containerSecondsNamer (''container_'' @ g @ ''_seconds_total'') = Some g"
    by (rule deriveName_containerSecondsNamer_match)
next
  fix raw assume "\<not> (\<exists>g. raw = ''container_'' @ g @ ''_seconds_total'' \<and> newline \<notin> set g)"
  then show "deriveName containerSecondsNamer raw = None"
    by (rule deriveName_containerSecondsNamer_no_match)
qed

text \<open>
  The statement of C1 on a second series of the family and on a series that the
  expression does not match.
\<close>

theorem deriveName_container_seconds_total_witness:
  "compile knownResources containerSecondsRule = Inr containerSecondsNamer
   \<and> newline \<notin> set ''fs_io_time''
   \<and> deriveName containerSecondsNamer ''container_fs_io_time_seconds_total'' = Some ''fs_io_time''
   \<and> regexFind (matches containerSecondsNamer) ''node_cpu_seconds_total'' = None
   \<and> deriveName containerSecondsNamer ''node_cpu_seconds_total'' = None"
proof -
  from deriveName_container_seconds_total obtain n where
    all: "compile knownResources containerSecondsRule = Inr n
     \<and> parseRegex (name_matches containerSecondsRule) = Some (matches n)
     \<and> deriveName n ''container_cpu_usage_seconds_total'' = Some ''cpu_usage''
     \<and> (\<forall>raw. regexFind (matches n) raw = None \<longrightarrow> deriveName n raw = None)
     \<and> (\<forall>g. newline \<notin> set g \<longrightarrow>
            deriveName n (''container_'' @ g @ ''_seconds_total'') = Some g)
     \<and> (\<forall>raw. \<not> (\<exists>g. raw = ''container_'' @ g @ ''_seconds_total'' \<and> newline \<notin> set g) \<longrightarrow>
            deriveName n raw = None)" ..
  note c = all [THEN conjunct1]
  note f = all [THEN conjunct2, THEN conjunct2, THEN conjunct2, THEN conjunct1, rule_format]
  note m = all [THEN conjunct2, THEN conjunct2, THEN conjunct2, THEN conjunct2, THEN conjunct1, rule_format]
  note u = all [THEN conjunct2, THEN conjunct2, THEN conjunct2, THEN conjunct2, THEN conjunct2, rule_format]
  from c have n: "n = containerSecondsNamer" by (simp only: compile_containerSecondsRule sum.inject)
  have nl: "newline \<notin> set ''fs_io_time''" by (simp add: newline_def)
  have d1: "deriveName n (''container_'' @ ''fs_io_time'' @ ''_seconds_total'') = Some ''fs_io_time''"
    using nl by (rule m)
  have nm: "\<not> (\<exists>g. ''node_cpu_seconds_total'' = ''container_'' @ g @ ''_seconds_total'' \<and> newline \<notin> set g)"
    by simp
  have d2: "deriveName n ''node_cpu_seconds_total'' = None"
    using nm by (rule u)
  have r: "regexFind (matches n) ''node_cpu_seconds_total'' = None"
    unfolding n using regexFind_anchoredCapture_no_match [of "''node_cpu_seconds_total''" "''container_''" "''_seconds_total''", OF nm]
    by (simp add: containerSecondsNamer_def)
  have d3: "deriveName n ''node_cpu_seconds_total'' = None"
    using r by (rule f)
  from d1 have d1': "deriveName n ''container_fs_io_time_seconds_total'' = Some ''fs_io_time''"
    by simp
  show ?thesis
    using compile_containerSecondsRule nl d1' r d3 unfolding n by (intro conjI)
qed

subsection \<open>Rendering queries\<close>




















end
